theory Spec2Isabelle
  imports Complex_Main "HOL-Library.Sublist"
begin

section \<open>Numbers\<close>

text \<open>
  The component computes with JavaScript numbers, which are IEEE-754 binary64 values.
  A finite number is modelled as the real it denotes, and every arithmetic operation of
  the source computes the exact result and then rounds it. The rounding is a parameter
  (an \<open>arith\<close>), so that the same definitions can be read in exact arithmetic and in
  binary64 arithmetic. \<open>Math.sin\<close> and \<open>Math.cos\<close> are parameters as well: the language
  leaves their last bit to the implementation. NaN, the infinities and overflow are
  outside this model; comparisons (\<open><\<close>, \<open>===\<close>) and \<open>Math.abs\<close> are exact on finite
  numbers.
\<close>

record arith =
  rnd :: "real \<Rightarrow> real"
  msin :: "real \<Rightarrow> real"
  mcos :: "real \<Rightarrow> real"

definition fadd :: "arith \<Rightarrow> real \<Rightarrow> real \<Rightarrow> real" where
  "fadd A a b = rnd A (a + b)"

definition fsub :: "arith \<Rightarrow> real \<Rightarrow> real \<Rightarrow> real" where
  "fsub A a b = rnd A (a - b)"

definition fmul :: "arith \<Rightarrow> real \<Rightarrow> real \<Rightarrow> real" where
  "fmul A a b = rnd A (a * b)"

definition fdiv :: "arith \<Rightarrow> real \<Rightarrow> real \<Rightarrow> real" where
  "fdiv A a b = rnd A (a / b)"

text \<open>Exact arithmetic: nothing is rounded.\<close>

definition exact :: arith where
  "exact = \<lparr>rnd = (\<lambda>v. v), msin = sin, mcos = cos\<rparr>"

text \<open>
  Binary64 arithmetic: round to nearest, ties to even, with a 53-bit significand and
  gradual underflow below \<open>2 powr (-1022)\<close>. \<open>round_even\<close> rounds to the nearest integer,
  a tie going to the even neighbour. The sine and cosine of \<open>binary64\<close> are the correctly
  rounded ones; nothing below that is about \<open>binary64\<close> depends on them.
\<close>

definition round_even :: "real \<Rightarrow> int" where
  "round_even q =
     (let f = \<lfloor>q\<rfloor>; d = q - of_int f
      in if d < 1 / 2 then f else if 1 / 2 < d then f + 1 else if even f then f else f + 1)"

definition round_double :: "real \<Rightarrow> real" where
  "round_double v =
     (if v = 0 then 0
      else let e = max \<lfloor>log 2 \<bar>v\<bar>\<rfloor> (- 1022); u = 2 powr (of_int (e - 52))
           in of_int (round_even (v / u)) * u)"

definition binary64 :: arith where
  "binary64 = \<lparr>rnd = round_double,
               msin = (\<lambda>v. round_double (sin v)),
               mcos = (\<lambda>v. round_double (cos v))\<rparr>"

section \<open>Data\<close>

text \<open>
  \<open>TrackPoint\<close> (types/DroneTypes.ts), the entries of \<open>elevationData\<close> and the centre
  point share the fields \<open>latitude\<close> and \<open>longitude\<close>.
\<close>

record LatLng =
  latitude :: real
  longitude :: real

record TrackPoint = LatLng +
  altitude :: real

record ElevationSample = LatLng +
  elevation :: real

text \<open>
  The object \<open>{ x, y, z }\<close> returned by \<open>convertToRelativeCoords\<close>. Its fields are
  written \<open>px\<close>, \<open>py\<close>, \<open>pz\<close> here, since \<open>x\<close>, \<open>y\<close> and \<open>z\<close> are wanted as variables.
\<close>

record LocalPoint =
  px :: real
  py :: real
  pz :: real

section \<open>Centre point of the track\<close>

text \<open>
  \<open>centerPoint\<close>: two \<open>reduce\<close> sums from 0, each divided by \<open>trackPoints.length\<close>.
  The component returns its placeholder before this code when the track is empty
  (\<open>if (!trackPoints.length) return ...\<close>); that guard is the \<open>None\<close> here.
\<close>

definition centerPoint :: "arith \<Rightarrow> TrackPoint list \<Rightarrow> LatLng option" where
  "centerPoint A trackPoints =
     (if length trackPoints = 0 then None
      else
        let sumLat = foldl (\<lambda>sum point. fadd A sum (latitude point)) 0 trackPoints;
            sumLng = foldl (\<lambda>sum point. fadd A sum (longitude point)) 0 trackPoints
        in Some \<lparr>latitude = fdiv A sumLat (real (length trackPoints)),
                 longitude = fdiv A sumLng (real (length trackPoints))\<rparr>)"

section \<open>Projection to relative coordinates\<close>

text \<open>
  \<open>convertToRelativeCoords(lng, lat, elev = 0)\<close>, closed over \<open>centerPoint\<close> (the argument
  \<open>center\<close> here). The optional third argument is an \<open>option\<close>: \<open>None\<close> when the caller leaves it out.
\<close>

definition convertToRelativeCoords ::
    "arith \<Rightarrow> LatLng \<Rightarrow> real \<Rightarrow> real \<Rightarrow> real option \<Rightarrow> LocalPoint" where
  "convertToRelativeCoords A center lng lat elev =
     (let scale = 111320;
          x = fmul A (fsub A lng (longitude center)) scale;
          y = fmul A (fsub A lat (latitude center)) scale
      in \<lparr>px = x, py = y, pz = (case elev of None \<Rightarrow> 0 | Some e \<Rightarrow> e)\<rparr>)"

section \<open>Elevation provider\<close>

text \<open>
  A feature of \<open>gridPoints\<close> is its \<open>geometry.coordinates\<close>, the pair
  \<open>[longitude, latitude]\<close>.
\<close>

type_synonym Feature = "real \<times> real"

text \<open>
  What \<open>fetch\<close> and \<open>response.json()\<close> can give for one request: the promise of
  \<open>fetch\<close> rejects (\<open>NetworkFailure\<close>), or it resolves to a response with a status and a
  body. The body does not parse as JSON (\<open>Unparsable\<close>), or it parses to a value whose
  \<open>results\<close> cannot be spread into an array (\<open>NoResults\<close>, for example \<open>{}\<close>), or
  \<open>results\<close> is an array of samples. \<open>response.ok\<close> is true for the statuses 200 to 299.
\<close>

datatype payload = Unparsable | NoResults | Results "ElevationSample list"

datatype response = NetworkFailure | Http nat payload

definition response_ok :: "nat \<Rightarrow> bool" where
  "response_ok status = (200 \<le> status \<and> status \<le> 299)"

text \<open>
  The exceptions that reach the \<open>catch\<close>: the rejection of \<open>fetch\<close>, the \<open>Error\<close> thrown
  for a response that is not ok (with its status), the rejection of \<open>response.json()\<close>,
  and the \<open>TypeError\<close> of spreading a missing \<open>results\<close>.
\<close>

datatype fetch_error = TransportError | FetchFailed nat | JsonError | NotIterable

text \<open>
  What the loop does to the outside world, in order: a POST with a batch of locations,
  and a timer of so many milliseconds that the loop awaits.
\<close>

datatype effect = Request "LatLng list" | Delay nat

text \<open>
  The network answers the request with a given sequence number (from 0) and body.
\<close>

type_synonym network = "nat \<Rightarrow> LatLng list \<Rightarrow> response"

definition BATCH_SIZE :: nat where
  "BATCH_SIZE = 100"

text \<open>\<open>Array.prototype.slice(a, b)\<close> for indices \<open>0 \<le> a \<le> b\<close>.\<close>

definition slice :: "'a list \<Rightarrow> nat \<Rightarrow> nat \<Rightarrow> 'a list" where
  "slice xs a b = take (b - a) (drop a xs)"

text \<open>
  The \<open>for\<close> loop of \<open>fetchElevationData\<close>, with the loop variable \<open>i\<close>, the accumulator
  \<open>allResults\<close> and the effects so far. A throw leaves the loop with \<open>Inl\<close>.
\<close>

function fetch_batches ::
    "network \<Rightarrow> LatLng list \<Rightarrow> nat \<Rightarrow> ElevationSample list \<Rightarrow> effect list
      \<Rightarrow> (fetch_error + ElevationSample list) \<times> effect list" where
  "fetch_batches net locations i allResults effects =
     (if i < length locations then
        (let batchLocations = slice locations i (i + BATCH_SIZE);
             effects1 = effects @ [Request batchLocations]
         in case net (i div BATCH_SIZE) batchLocations of
              NetworkFailure \<Rightarrow> (Inl TransportError, effects1)
            | Http status body \<Rightarrow>
                if \<not> response_ok status then (Inl (FetchFailed status), effects1)
                else (case body of
                        Unparsable \<Rightarrow> (Inl JsonError, effects1)
                      | NoResults \<Rightarrow> (Inl NotIterable, effects1)
                      | Results results \<Rightarrow>
                          fetch_batches net locations (i + BATCH_SIZE)
                            (allResults @ results) (effects1 @ [Delay 100])))
      else (Inr allResults, effects))"
  by pat_completeness auto
termination
  by (relation "measure (\<lambda>(net, locations, i, allResults, effects). length locations - i)")
     (auto simp: BATCH_SIZE_def)

declare fetch_batches.simps [simp del]

text \<open>
  A decimal literal of the source denotes the number nearest to it in the arithmetic.
  The integer literals (111320, 30, 10, 5, 2) are numbers of binary64 as they stand.
\<close>

definition flit :: "arith \<Rightarrow> real \<Rightarrow> real" where
  "flit A v = rnd A v"

text \<open>The body of the \<open>map\<close> of the fallback: one simulated sample for one feature.\<close>

definition simulatedSample :: "arith \<Rightarrow> LatLng \<Rightarrow> Feature \<Rightarrow> ElevationSample" where
  "simulatedSample A center feature =
     (let lng = fst feature;
          lat = snd feature;
          x = fmul A (fsub A lng (longitude center)) 111320;
          y = fmul A (fsub A lat (latitude center)) 111320;
          elevation =
            fadd A
              (fadd A
                 (fmul A (fmul A (msin A (fmul A x (flit A 0.005)))
                                 (mcos A (fmul A y (flit A 0.005)))) 30)
                 (fmul A (fmul A (msin A (fmul A x (flit A 0.02)))
                                 (mcos A (fmul A y (flit A 0.02)))) 10))
              (fmul A (fmul A (msin A (fmul A x (flit A 0.05)))
                              (mcos A (fmul A y (flit A 0.05)))) 5)
      in \<lparr>latitude = lat, longitude = lng, elevation = elevation\<rparr>)"

text \<open>The three pieces of component state that the effect writes.\<close>

record ComponentState =
  isLoading :: bool
  errorMessage :: "string option"
  elevationData :: "ElevationSample list"

text \<open>
  \<open>fetchElevationData\<close> runs in three stretches. The first runs when the effect runs:
  \<open>setIsLoading(true); setErrorMessage(null)\<close>. The second builds \<open>locations\<close> and runs the
  loop; it awaits the network and the timers and writes no component state. The third
  runs after the last await: the two setters after the loop, or the \<open>catch\<close> block.
\<close>

definition fetchElevationData_begin :: "ComponentState \<Rightarrow> ComponentState" where
  "fetchElevationData_begin s = s\<lparr>isLoading := True, errorMessage := None\<rparr>"

definition fetchElevationData_requests ::
    "network \<Rightarrow> Feature list \<Rightarrow> (fetch_error + ElevationSample list) \<times> effect list" where
  "fetchElevationData_requests net features =
     (let locations = map (\<lambda>feature. \<lparr>latitude = snd feature, longitude = fst feature\<rparr>) features
      in fetch_batches net locations 0 [] [])"

definition fetchElevationData_settle ::
    "arith \<Rightarrow> Feature list \<Rightarrow> LatLng \<Rightarrow> fetch_error + ElevationSample list
      \<Rightarrow> ComponentState \<Rightarrow> ComponentState" where
  "fetchElevationData_settle A features center outcome s =
     (case outcome of
        Inr allResults \<Rightarrow> s\<lparr>elevationData := allResults, isLoading := False\<rparr>
      | Inl error \<Rightarrow>
          (let simulatedData = map (simulatedSample A center) features
           in s\<lparr>errorMessage :=
                   Some ''Failed to fetch elevation data. Using simulated terrain instead.'',
                 isLoading := False,
                 elevationData := simulatedData\<rparr>))"

definition fetchElevationData ::
    "arith \<Rightarrow> network \<Rightarrow> Feature list \<Rightarrow> LatLng \<Rightarrow> ComponentState
      \<Rightarrow> ComponentState \<times> effect list" where
  "fetchElevationData A net features center s =
     (let s1 = fetchElevationData_begin s;
          (outcome, effects) = fetchElevationData_requests net features
      in (fetchElevationData_settle A features center outcome s1, effects))"

text \<open>
  The effect itself: \<open>if (!gridPoints.features.length) return;\<close> and then the call.
\<close>

definition elevationEffect ::
    "arith \<Rightarrow> network \<Rightarrow> Feature list \<Rightarrow> LatLng \<Rightarrow> ComponentState
      \<Rightarrow> ComponentState \<times> effect list" where
  "elevationEffect A net features center s =
     (if length features = 0 then (s, []) else fetchElevationData A net features center s)"

subsection \<open>Several runs of the effect\<close>

text \<open>
  The effect runs again whenever \<open>gridPoints\<close> or \<open>centerPoint\<close> change, and it returns no
  cleanup: a run that is still awaiting goes on. Each run closes over its own
  \<open>gridPoints\<close> and \<open>centerPoint\<close>; \<open>answers\<close> is what the network gives to its requests.
  The runs are numbered in the order in which they start. On the one thread, the first
  and the third stretch of a run are not interrupted, so a history of the component is a
  sequence of \<open>Begin\<close> and \<open>Settle\<close> events.
\<close>

record Run =
  gridPoints :: "Feature list"
  center_of :: LatLng
  answers :: network

datatype event = Begin nat | Settle nat

fun step :: "arith \<Rightarrow> (nat \<Rightarrow> Run) \<Rightarrow> ComponentState \<Rightarrow> event \<Rightarrow> ComponentState" where
  "step A runs s (Begin k) = fetchElevationData_begin s"
| "step A runs s (Settle k) =
     fetchElevationData_settle A (gridPoints (runs k)) (center_of (runs k))
       (fst (fetchElevationData_requests (answers (runs k)) (gridPoints (runs k)))) s"

definition history :: "arith \<Rightarrow> (nat \<Rightarrow> Run) \<Rightarrow> ComponentState \<Rightarrow> event list \<Rightarrow> ComponentState" where
  "history A runs s events = foldl (step A runs) s events"

section \<open>Terrain grid\<close>

text \<open>An element of \<open>points\<close>: the sample with its \<open>relCoords\<close>.\<close>

record Point = ElevationSample +
  relCoords :: LocalPoint

text \<open>
  The object \<open>{ x, y, z }\<close> that \<open>terrainData\<close> returns, with the fields written \<open>hx\<close>,
  \<open>hy\<close>, \<open>hz\<close>. A JavaScript array can have holes, and reading one gives \<open>undefined\<close>:
  an array built by assignments is a list of options, \<open>None\<close> for a hole.
\<close>

record HeightField =
  hx :: "real list"
  hy :: "real list"
  hz :: "real option list option list"

text \<open>
  The assignment \<open>a[i] = v\<close>: it overwrites inside the array, and extends the array
  when \<open>i\<close> is at or past its end, leaving holes in between.
\<close>

definition js_store :: "'a option list \<Rightarrow> nat \<Rightarrow> 'a \<Rightarrow> 'a option list" where
  "js_store a i v =
     (if i < length a then a[i := Some v]
      else a @ replicate (i - length a) None @ [Some v])"

text \<open>
  \<open>Array.from(new Set(vs))\<close>: the distinct values of \<open>vs\<close> in the order of their
  first occurrence.
\<close>

fun Set_values :: "'a list \<Rightarrow> 'a list \<Rightarrow> 'a list" where
  "Set_values seen [] = seen"
| "Set_values seen (v # vs) =
     (if v \<in> set seen then Set_values seen vs else Set_values (seen @ [v]) vs)"

text \<open>
  The body of the inner loop: the value assigned to \<open>zGrid[i][j]\<close>, for
  \<open>xj = uniqueX[j]\<close> and \<open>yi = uniqueY[i]\<close>.
\<close>

definition zGrid_cell :: "arith \<Rightarrow> real \<Rightarrow> Point list \<Rightarrow> real \<Rightarrow> real \<Rightarrow> real" where
  "zGrid_cell A terrainResolution points xj yi =
     (case find (\<lambda>p. px (relCoords p) = xj \<and> py (relCoords p) = yi) points of
        Some matchingPoint \<Rightarrow> pz (relCoords matchingPoint)
      | None \<Rightarrow>
          (let nearbyPoints =
                 filter (\<lambda>p. \<bar>fsub A (px (relCoords p)) xj\<bar> < fmul A terrainResolution 2
                            \<and> \<bar>fsub A (py (relCoords p)) yi\<bar> < fmul A terrainResolution 2)
                   points
           in if length nearbyPoints > 0 then
                (let avgElevation =
                       fdiv A (foldl (\<lambda>sum p. fadd A sum (pz (relCoords p))) 0 nearbyPoints)
                         (real (length nearbyPoints))
                 in avgElevation)
              else 0))"

text \<open>The inner loop over \<open>j\<close>, on the row \<open>zGrid[i]\<close>.\<close>

function fill_row ::
    "arith \<Rightarrow> real \<Rightarrow> Point list \<Rightarrow> real list \<Rightarrow> real \<Rightarrow> nat \<Rightarrow> real option list
      \<Rightarrow> real option list" where
  "fill_row A terrainResolution points uniqueX yi j row =
     (if j < length uniqueX then
        fill_row A terrainResolution points uniqueX yi (j + 1)
          (js_store row j (zGrid_cell A terrainResolution points (uniqueX ! j) yi))
      else row)"
  by pat_completeness auto
termination
  by (relation "measure (\<lambda>(A, r, points, uniqueX, yi, j, row). length uniqueX - j)") auto

declare fill_row.simps [simp del]

text \<open>The outer loop over \<open>i\<close>: \<open>zGrid[i] = []\<close>, then the inner loop on that row.\<close>

function fill_grid ::
    "arith \<Rightarrow> real \<Rightarrow> Point list \<Rightarrow> real list \<Rightarrow> real list \<Rightarrow> nat
      \<Rightarrow> real option list option list \<Rightarrow> real option list option list" where
  "fill_grid A terrainResolution points uniqueX uniqueY i zGrid =
     (if i < length uniqueY then
        fill_grid A terrainResolution points uniqueX uniqueY (i + 1)
          (js_store zGrid i
             (fill_row A terrainResolution points uniqueX (uniqueY ! i) 0 []))
      else zGrid)"
  by pat_completeness auto
termination
  by (relation "measure (\<lambda>(A, r, points, uniqueX, uniqueY, i, zGrid). length uniqueY - i)") auto

declare fill_grid.simps [simp del]

text \<open>
  \<open>points\<close>: every sample of the state \<open>elevationData\<close> (the argument \<open>samples\<close>)
  with its relative coordinates.
\<close>

definition terrainData_points :: "arith \<Rightarrow> LatLng \<Rightarrow> ElevationSample list \<Rightarrow> Point list" where
  "terrainData_points A center samples =
     map (\<lambda>p. \<lparr>latitude = latitude p, longitude = longitude p, elevation = elevation p,
                relCoords = convertToRelativeCoords A center (longitude p) (latitude p)
                              (Some (elevation p))\<rparr>)
       samples"

text \<open>
  \<open>terrainData\<close>, for the state \<open>elevationData\<close>, the prop \<open>terrainResolution\<close> and the
  centre point. The comparison function \<open>(a, b) => a - b\<close> orders finite numbers
  ascending (a rounded difference keeps its sign), so \<open>sort\<close> is the sorting of the
  library.
\<close>

definition terrainData :: "arith \<Rightarrow> LatLng \<Rightarrow> real \<Rightarrow> ElevationSample list \<Rightarrow> HeightField" where
  "terrainData A center terrainResolution samples =
     (if length samples = 0 then \<lparr>hx = [], hy = [], hz = [Some []]\<rparr>
      else
        let points = terrainData_points A center samples;
            uniqueX = sort (Set_values [] (map (\<lambda>p. px (relCoords p)) points));
            uniqueY = sort (Set_values [] (map (\<lambda>p. py (relCoords p)) points));
            zGrid = fill_grid A terrainResolution points uniqueX uniqueY 0 []
        in \<lparr>hx = uniqueX, hy = uniqueY, hz = zGrid\<rparr>)"

section \<open>Notions of the specification\<close>

text \<open>
  The arithmetic mean as the code computes it in an arithmetic: the sum from 0, from
  left to right, divided by the count. In exact arithmetic it is the arithmetic mean
  (\<open>fmean_exact\<close> below).
\<close>

definition fmean :: "arith \<Rightarrow> real list \<Rightarrow> real" where
  "fmean A vs = fdiv A (foldl (fadd A) 0 vs) (real (length vs))"

text \<open>
  The projection of a sample, and the two tests of the re-gridder on a sample and a
  grid position \<open>(xj, yi)\<close>: its projection is exactly there, or it is within twice the
  resolution of it on each axis (the code's test is strict).
\<close>

definition projected :: "arith \<Rightarrow> LatLng \<Rightarrow> ElevationSample \<Rightarrow> LocalPoint" where
  "projected A center s =
     convertToRelativeCoords A center (longitude s) (latitude s) (Some (elevation s))"

definition exactly_at :: "arith \<Rightarrow> LatLng \<Rightarrow> real \<Rightarrow> real \<Rightarrow> ElevationSample \<Rightarrow> bool" where
  "exactly_at A center xj yi s =
     (px (projected A center s) = xj \<and> py (projected A center s) = yi)"

definition within_window ::
    "arith \<Rightarrow> LatLng \<Rightarrow> real \<Rightarrow> real \<Rightarrow> real \<Rightarrow> ElevationSample \<Rightarrow> bool" where
  "within_window A center resolution xj yi s =
     (\<bar>fsub A (px (projected A center s)) xj\<bar> < fmul A resolution 2
      \<and> \<bar>fsub A (py (projected A center s)) yi\<bar> < fmul A resolution 2)"

text \<open>
  The batches of the provider: the number of batches for a sequence of locations, and
  the \<open>k\<close>-th batch, the next \<open>BATCH_SIZE\<close> locations from position \<open>k * BATCH_SIZE\<close>.
\<close>

definition batch_count :: "'a list \<Rightarrow> nat" where
  "batch_count locations = (length locations + BATCH_SIZE - 1) div BATCH_SIZE"

definition batch :: "'a list \<Rightarrow> nat \<Rightarrow> 'a list" where
  "batch locations k = slice locations (k * BATCH_SIZE) (k * BATCH_SIZE + BATCH_SIZE)"

text \<open>
  A response is good when it is ok and carries an array of results; \<open>results_of\<close> is
  that array, and \<open>error_of\<close> is the failure that a response which is not good raises.
\<close>

definition good_response :: "response \<Rightarrow> bool" where
  "good_response r =
     (case r of Http status (Results results) \<Rightarrow> response_ok status | _ \<Rightarrow> False)"

definition results_of :: "response \<Rightarrow> ElevationSample list" where
  "results_of r = (case r of Http status (Results results) \<Rightarrow> results | _ \<Rightarrow> [])"

definition error_of :: "response \<Rightarrow> fetch_error" where
  "error_of r =
     (case r of
        NetworkFailure \<Rightarrow> TransportError
      | Http status body \<Rightarrow>
          if \<not> response_ok status then FetchFailed status
          else (case body of Unparsable \<Rightarrow> JsonError | _ \<Rightarrow> NotIterable))"

text \<open>
  The effects of the batches from \<open>k0\<close> up to \<open>k\<close> when each gets a good response: for
  each batch its request, then a delay of 100 ms.
\<close>

definition batch_effects :: "LatLng list \<Rightarrow> nat \<Rightarrow> nat \<Rightarrow> effect list" where
  "batch_effects locations k0 k =
     concat (map (\<lambda>j. [Request (batch locations j), Delay 100]) [k0..<k])"

text \<open>
  The synthetic elevation at a projected position: the sum of three products of a sine
  in x and a cosine in y, of frequencies 0.005, 0.02 and 0.05 and amplitudes 30, 10
  and 5.
\<close>

definition wave :: "arith \<Rightarrow> real \<Rightarrow> real \<Rightarrow> real \<Rightarrow> real \<Rightarrow> real" where
  "wave A frequency amplitude x y =
     fmul A (fmul A (msin A (fmul A x (flit A frequency))) (mcos A (fmul A y (flit A frequency))))
       amplitude"

definition synthetic_elevation :: "arith \<Rightarrow> real \<Rightarrow> real \<Rightarrow> real" where
  "synthetic_elevation A x y =
     fadd A (fadd A (wave A 0.005 30 x y) (wave A 0.02 10 x y)) (wave A 0.05 5 x y)"

section \<open>Example inputs\<close>

text \<open>The number that the literal \<open>0.1\<close> denotes in binary64.\<close>

definition double_0_1 :: real where
  "double_0_1 = 3602879701896397 / 36028797018963968"

text \<open>A track of three fixes at one position.\<close>

definition hover_track :: "TrackPoint list" where
  "hover_track = replicate 3 \<lparr>latitude = double_0_1, longitude = 0, altitude = 0\<rparr>"

text \<open>The centre point at latitude 0 and longitude 0.\<close>

definition origin :: LatLng where
  "origin = \<lparr>latitude = 0, longitude = 0\<rparr>"

text \<open>Two samples a degree apart on each axis.\<close>

definition two_samples :: "ElevationSample list" where
  "two_samples =
     [\<lparr>latitude = 0, longitude = 0, elevation = 10\<rparr>,
      \<lparr>latitude = 1, longitude = 1, elevation = 20\<rparr>]"

text \<open>
  Three samples of elevation 0.1 at the corners of a right angle with legs of
  \<open>1 / 16384\<close> degree (6.79 m): the fourth corner of the square has no sample.
\<close>

definition corner_samples :: "ElevationSample list" where
  "corner_samples =
     [\<lparr>latitude = 0, longitude = 0, elevation = double_0_1\<rparr>,
      \<lparr>latitude = 0, longitude = 1 / 16384, elevation = double_0_1\<rparr>,
      \<lparr>latitude = 1 / 16384, longitude = 0, elevation = double_0_1\<rparr>]"

text \<open>The state of the component after its first render.\<close>

definition initial_state :: ComponentState where
  "initial_state = \<lparr>isLoading = False, errorMessage = None, elevationData = []\<rparr>"

text \<open>
  Three services: one answers every location with the elevation \<open>h\<close>, one answers
  with an empty array of results, one answers with status 500.
\<close>

definition flat_service :: "real \<Rightarrow> network" where
  "flat_service h k locations =
     Http 200 (Results (map (\<lambda>l. \<lparr>latitude = latitude l, longitude = longitude l,
                                   elevation = h\<rparr>) locations))"

definition silent_service :: network where
  "silent_service k locations = Http 200 (Results [])"

definition failing_service :: network where
  "failing_service k locations = Http 500 Unparsable"

text \<open>
  Two runs of the effect: run 0 for a grid of one point at (0, 0), where the service
  gives elevation 1, and the later run 1 for a grid of one point at (1, 1), where it
  gives elevation 2.
\<close>

definition two_runs :: "nat \<Rightarrow> Run" where
  "two_runs k =
     (if k = 0 then \<lparr>gridPoints = [(0, 0)], center_of = origin, answers = flat_service 1\<rparr>
      else \<lparr>gridPoints = [(1, 1)], center_of = origin, answers = flat_service 2\<rparr>)"

section \<open>Properties\<close>

lemma sum_list_lower: "\<forall>v \<in> set vs. lo \<le> v \<Longrightarrow> lo * real (length vs) \<le> sum_list vs"
  by (induction vs) (auto simp: algebra_simps)

lemma sum_list_upper: "\<forall>v \<in> set vs. v \<le> hi \<Longrightarrow> sum_list vs \<le> hi * real (length vs)"
  by (induction vs) (auto simp: algebra_simps)

lemma mean_between:
  assumes "vs \<noteq> []" and "\<forall>v \<in> set vs. lo \<le> v" and "\<forall>v \<in> set vs. v \<le> hi"
  shows "lo \<le> sum_list vs / real (length vs) \<and> sum_list vs / real (length vs) \<le> hi"
proof -
  have n: "0 < real (length vs)" using assms(1) by simp
  have "lo * real (length vs) \<le> sum_list vs" by (rule sum_list_lower [OF assms(2)])
  moreover have "sum_list vs \<le> hi * real (length vs)" by (rule sum_list_upper [OF assms(3)])
  ultimately show ?thesis using n by (simp add: pos_le_divide_eq pos_divide_le_eq)
qed

lemma fmean_exact: "fmean exact vs = sum_list vs / real (length vs)"
proof -
  have "foldl (fadd exact) a vs = a + sum_list vs" for a
    by (induction vs arbitrary: a) (simp_all add: fadd_def exact_def)
  then show ?thesis by (simp add: fmean_def fdiv_def exact_def)
qed

subsection \<open>Rounding in binary64\<close>

lemma log2_quotient: "log 2 (2 ^ m / 2 ^ n) = real m - real n"
  by (simp add: log_divide log_nat_power)

text \<open>
  A number whose magnitude lies in the binade \<open>[2^52 / 2^n, 2^53 / 2^n)\<close> is rounded to
  a multiple of \<open>1 / 2^n\<close>.
\<close>

lemma round_double_scaled:
  assumes n: "n \<le> 1074"
    and lo: "2 ^ 52 / 2 ^ n \<le> \<bar>v\<bar>"
    and hi: "\<bar>v\<bar> < 2 ^ 53 / 2 ^ n"
  shows "round_double v = of_int (round_even (v * 2 ^ n)) / 2 ^ n"
proof -
  have pos: "0 < \<bar>v\<bar>" using lo by (smt (verit) divide_pos_pos zero_less_power)
  have v0: "v \<noteq> 0" using pos by auto
  have l1: "log 2 (2 ^ 52 / 2 ^ n) = 52 - real n"
    using log2_quotient [of 52 n] by simp
  have l2: "log 2 (2 ^ 53 / 2 ^ n) = 53 - real n"
    using log2_quotient [of 53 n] by simp
  have "log 2 (2 ^ 52 / 2 ^ n) \<le> log 2 \<bar>v\<bar>"
    using lo pos by (subst log_le_cancel_iff) auto
  then have a: "52 - real n \<le> log 2 \<bar>v\<bar>" using l1 by simp
  have "log 2 \<bar>v\<bar> < log 2 (2 ^ 53 / 2 ^ n)"
    using hi pos by (subst log_less_cancel_iff) auto
  then have b: "log 2 \<bar>v\<bar> < 53 - real n" using l2 by simp
  have fl: "\<lfloor>log 2 \<bar>v\<bar>\<rfloor> = 52 - int n"
    using a b by (intro floor_unique) auto
  have mx: "max (52 - int n) (- 1022) = 52 - int n" using n by simp
  have u: "2 powr (- real n) = 1 / (2 ^ n :: real)"
    by (simp add: powr_minus powr_realpow inverse_eq_divide)
  have "round_double v = of_int (round_even (v / 2 powr (- real n))) * 2 powr (- real n)"
    using v0 by (simp add: round_double_def Let_def fl mx)
  then show ?thesis
    by (simp add: u)
qed

lemma round_double_zero: "round_double 0 = 0"
  by (simp add: round_double_def)

text \<open>\<open>double_0_1\<close> is the number of binary64 nearest to one tenth.\<close>

lemma double_0_1_literal: "round_double (1 / 10) = double_0_1"
  by (subst round_double_scaled [of 56]) (simp_all add: double_0_1_def round_even_def)

lemma double_0_1_fixed: "round_double double_0_1 = double_0_1"
  by (subst round_double_scaled [of 56]) (simp_all add: double_0_1_def round_even_def)

lemma double_0_1_twice: "round_double (double_0_1 + double_0_1) = 2 * double_0_1"
  by (subst round_double_scaled [of 55]) (simp_all add: double_0_1_def round_even_def)

lemma double_0_1_thrice:
  "round_double (2 * double_0_1 + double_0_1) = 5404319552844596 / 2 ^ 54"
  by (subst round_double_scaled [of 54]) (simp_all add: double_0_1_def round_even_def)

lemma double_0_1_third:
  "round_double (5404319552844596 / 2 ^ 54 / 3) = 7205759403792795 / 2 ^ 56"
  by (subst round_double_scaled [of 56]) (simp_all add: round_even_def)

text \<open>
  The mean of three copies of \<open>double_0_1\<close> in binary64 is the next number of binary64
  above \<open>double_0_1\<close>.
\<close>

lemma fmean_binary64_three:
  "fmean binary64 [double_0_1, double_0_1, double_0_1] = 7205759403792795 / 2 ^ 56"
proof -
  have s1: "fadd binary64 0 double_0_1 = double_0_1"
    by (simp add: fadd_def binary64_def double_0_1_fixed)
  have s2: "fadd binary64 double_0_1 double_0_1 = 2 * double_0_1"
    by (simp only: fadd_def binary64_def arith.simps double_0_1_twice)
  have s3: "fadd binary64 (2 * double_0_1) double_0_1 = 5404319552844596 / 2 ^ 54"
    by (simp only: fadd_def binary64_def arith.simps double_0_1_thrice)
  have s4: "fdiv binary64 (5404319552844596 / 2 ^ 54) 3 = 7205759403792795 / 2 ^ 56"
    by (simp only: fdiv_def binary64_def arith.simps double_0_1_third)
  have sum: "foldl (fadd binary64) 0 [double_0_1, double_0_1, double_0_1]
          = 5404319552844596 / 2 ^ 54"
    by (simp only: foldl.simps s1 s2 s3)
  have len: "real (length [double_0_1, double_0_1, double_0_1]) = 3"
    by simp
  show ?thesis
    unfolding fmean_def sum len by (rule s4)
qed

subsection \<open>Projection\<close>


subsection \<open>Centre point\<close>

text \<open>
  C8, as stated: for every non-empty track the latitude of the centre point is at most
  the greatest latitude of the track. In binary64 arithmetic this fails for three fixes
  at latitude 0.1: the sum rounds up, and the quotient is the next number above 0.1.
\<close>

theorem centroid_bounds_counterexample:
  "centerPoint binary64 hover_track
     = Some \<lparr>latitude = 7205759403792795 / 2 ^ 56, longitude = 0\<rparr>
   \<and> \<not> (7205759403792795 / 2 ^ 56 \<le> Max (latitude ` set hover_track))"
proof -
  have lat: "fdiv binary64 (foldl (\<lambda>sum point. fadd binary64 sum (latitude point)) 0 hover_track)
               (real (length hover_track)) = 7205759403792795 / 2 ^ 56"
    using fmean_binary64_three
    by (simp add: hover_track_def fmean_def numeral_3_eq_3)
  have lng: "fdiv binary64 (foldl (\<lambda>sum point. fadd binary64 sum (longitude point)) 0 hover_track)
               (real (length hover_track)) = 0"
    by (simp add: hover_track_def numeral_3_eq_3 fdiv_def fadd_def binary64_def round_double_zero)
  have ne: "length hover_track \<noteq> 0" by (simp add: hover_track_def)
  have c: "centerPoint binary64 hover_track
             = Some \<lparr>latitude = 7205759403792795 / 2 ^ 56, longitude = 0\<rparr>"
    unfolding centerPoint_def Let_def lat lng using ne by simp
  have m: "Max (latitude ` set hover_track) = double_0_1"
    by (simp add: hover_track_def numeral_3_eq_3)
  show ?thesis unfolding m using c by (simp add: double_0_1_def)
qed

text \<open>
  C8, amended. For every non-empty track, the latitude and the longitude of the centre
  point are, independently, the means of the latitudes and of the longitudes as the
  arithmetic in use computes them. In exact arithmetic they are the arithmetic means,
  and each lies in the closed interval between the least and the greatest latitude
  (longitude) of the track.
\<close>

theorem centroid_mean_bounds:
  assumes "trackPoints \<noteq> []"
  shows "centerPoint A trackPoints
           = Some \<lparr>latitude = fmean A (map latitude trackPoints),
                   longitude = fmean A (map longitude trackPoints)\<rparr>
         \<and> centerPoint exact trackPoints
           = Some \<lparr>latitude = sum_list (map latitude trackPoints) / real (length trackPoints),
                   longitude = sum_list (map longitude trackPoints) / real (length trackPoints)\<rparr>
         \<and> Min (latitude ` set trackPoints)
             \<le> sum_list (map latitude trackPoints) / real (length trackPoints)
         \<and> sum_list (map latitude trackPoints) / real (length trackPoints)
             \<le> Max (latitude ` set trackPoints)
         \<and> Min (longitude ` set trackPoints)
             \<le> sum_list (map longitude trackPoints) / real (length trackPoints)
         \<and> sum_list (map longitude trackPoints) / real (length trackPoints)
             \<le> Max (longitude ` set trackPoints)"
proof -
  have gen: "centerPoint B trackPoints
           = Some \<lparr>latitude = fmean B (map latitude trackPoints),
                   longitude = fmean B (map longitude trackPoints)\<rparr>" for B
    using assms by (simp add: centerPoint_def fmean_def foldl_map)
  have ex: "centerPoint exact trackPoints
           = Some \<lparr>latitude = sum_list (map latitude trackPoints) / real (length trackPoints),
                   longitude = sum_list (map longitude trackPoints) / real (length trackPoints)\<rparr>"
    using gen [of exact] by (simp add: fmean_exact)
  have between: "Min (f ` set trackPoints) \<le> sum_list (map f trackPoints) / real (length trackPoints)
        \<and> sum_list (map f trackPoints) / real (length trackPoints) \<le> Max (f ` set trackPoints)"
    for f :: "TrackPoint \<Rightarrow> real"
    using mean_between [of "map f trackPoints" "Min (f ` set trackPoints)" "Max (f ` set trackPoints)"]
      assms by simp
  show ?thesis
    using gen [of A] ex between [of latitude] between [of longitude] by simp
qed

text \<open>An instance of the amended C8: a track of two points, in exact arithmetic.\<close>

theorem centroid_mean_bounds_witness:
  "[\<lparr>latitude = 1, longitude = 4, altitude = 5\<rparr>, \<lparr>latitude = 3, longitude = 8, altitude = 20\<rparr>] \<noteq> []
   \<and> centerPoint exact
       [\<lparr>latitude = 1, longitude = 4, altitude = 5\<rparr>, \<lparr>latitude = 3, longitude = 8, altitude = 20\<rparr>]
     = Some \<lparr>latitude = 2, longitude = 6\<rparr>"
proof -
  have h: "[\<lparr>latitude = 1, longitude = 4, altitude = 5\<rparr>,
            \<lparr>latitude = 3, longitude = 8, altitude = (20::real)\<rparr>] \<noteq> []" by simp
  show ?thesis
    using centroid_mean_bounds [OF h, of exact, THEN conjunct2, THEN conjunct1] by simp
qed



subsection \<open>Terrain grid\<close>

text \<open>The loops assign every index once, in order, so they build the rows without holes.\<close>

lemma js_store_end: "js_store a (length a) v = a @ [Some v]"
  by (simp add: js_store_def)

lemma fill_row_eq:
  "length row = j \<Longrightarrow>
   fill_row A r points uniqueX yi j row
     = row @ map (\<lambda>xj. Some (zGrid_cell A r points xj yi)) (drop j uniqueX)"
proof (induction A r points uniqueX yi j row rule: fill_row.induct)
  case (1 A r points uniqueX yi j row)
  show ?case
  proof (cases "j < length uniqueX")
    case True
    have d: "drop j uniqueX = uniqueX ! j # drop (j + 1) uniqueX"
      using True by (simp add: Cons_nth_drop_Suc)
    have "fill_row A r points uniqueX yi j row
            = fill_row A r points uniqueX yi (j + 1)
                (js_store row j (zGrid_cell A r points (uniqueX ! j) yi))"
      using True by (subst fill_row.simps) simp
    also have "\<dots> = (row @ [Some (zGrid_cell A r points (uniqueX ! j) yi)])
                 @ map (\<lambda>xj. Some (zGrid_cell A r points xj yi)) (drop (j + 1) uniqueX)"
      using "1.IH" [OF True] "1.prems" js_store_end [of row] by simp
    finally show ?thesis using d by simp
  next
    case False
    then show ?thesis by (subst fill_row.simps) simp
  qed
qed

lemma fill_grid_eq:
  "length zGrid = i \<Longrightarrow>
   fill_grid A r points uniqueX uniqueY i zGrid
     = zGrid @ map (\<lambda>yi. Some (map (\<lambda>xj. Some (zGrid_cell A r points xj yi)) uniqueX))
                 (drop i uniqueY)"
proof (induction A r points uniqueX uniqueY i zGrid rule: fill_grid.induct)
  case (1 A r points uniqueX uniqueY i zGrid)
  show ?case
  proof (cases "i < length uniqueY")
    case True
    have d: "drop i uniqueY = uniqueY ! i # drop (i + 1) uniqueY"
      using True by (simp add: Cons_nth_drop_Suc)
    have row: "fill_row A r points uniqueX (uniqueY ! i) 0 []
                 = map (\<lambda>xj. Some (zGrid_cell A r points xj (uniqueY ! i))) uniqueX"
      using fill_row_eq [of "[]" 0] by simp
    have "fill_grid A r points uniqueX uniqueY i zGrid
            = fill_grid A r points uniqueX uniqueY (i + 1)
                (js_store zGrid i (fill_row A r points uniqueX (uniqueY ! i) 0 []))"
      using True by (subst fill_grid.simps) simp
    also have "\<dots> = (zGrid @ [Some (fill_row A r points uniqueX (uniqueY ! i) 0 [])])
                 @ map (\<lambda>yi. Some (map (\<lambda>xj. Some (zGrid_cell A r points xj yi)) uniqueX))
                     (drop (i + 1) uniqueY)"
      using "1.IH" [OF True] "1.prems" js_store_end [of zGrid] by simp
    finally show ?thesis using d row by simp
  next
    case False
    then show ?thesis by (subst fill_grid.simps) simp
  qed
qed

lemma set_Set_values: "set (Set_values seen vs) = set seen \<union> set vs"
  by (induction seen vs rule: Set_values.induct) auto

lemma distinct_Set_values: "distinct seen \<Longrightarrow> distinct (Set_values seen vs)"
  by (induction seen vs rule: Set_values.induct) auto

lemma terrainData_nonempty:
  assumes "samples \<noteq> []"
  shows "hx (terrainData A center r samples)
           = sort (Set_values [] (map (\<lambda>s. px (projected A center s)) samples))"
    and "hy (terrainData A center r samples)
           = sort (Set_values [] (map (\<lambda>s. py (projected A center s)) samples))"
    and "hz (terrainData A center r samples)
           = map (\<lambda>yi. Some (map (\<lambda>xj. Some (zGrid_cell A r (terrainData_points A center samples) xj yi))
                               (hx (terrainData A center r samples))))
               (hy (terrainData A center r samples))"
  using assms fill_grid_eq [of "[]" 0]
  by (simp_all add: terrainData_def Let_def terrainData_points_def projected_def o_def)

text \<open>The cell of the grid, in terms of the samples rather than of \<open>points\<close>.\<close>

lemma find_points:
  "find (\<lambda>p. px (relCoords p) = xj \<and> py (relCoords p) = yi) (terrainData_points A center samples)
     = map_option (\<lambda>p. \<lparr>latitude = latitude p, longitude = longitude p, elevation = elevation p,
                relCoords = projected A center p\<rparr>)
         (find (exactly_at A center xj yi) samples)"
  by (induction samples) (simp_all add: terrainData_points_def exactly_at_def projected_def)

lemma filter_points:
  "filter (\<lambda>p. \<bar>fsub A (px (relCoords p)) xj\<bar> < fmul A r 2
              \<and> \<bar>fsub A (py (relCoords p)) yi\<bar> < fmul A r 2) (terrainData_points A center samples)
     = terrainData_points A center (filter (within_window A center r xj yi) samples)"
  by (induction samples) (simp_all add: terrainData_points_def within_window_def projected_def)

lemma pz_points:
  "map (\<lambda>p. pz (relCoords p)) (terrainData_points A center samples) = map elevation samples"
  by (simp add: terrainData_points_def convertToRelativeCoords_def Let_def)

lemma zGrid_cell_samples:
  "zGrid_cell A r (terrainData_points A center samples) xj yi =
     (case find (exactly_at A center xj yi) samples of
        Some s \<Rightarrow> elevation s
      | None \<Rightarrow>
          (if filter (within_window A center r xj yi) samples = [] then 0
           else fmean A (map elevation (filter (within_window A center r xj yi) samples))))"
proof -
  have fl: "foldl (\<lambda>sum p. fadd A sum (pz (relCoords p))) 0 ps
              = foldl (fadd A) 0 (map (\<lambda>p. pz (relCoords p)) ps)" for ps :: "Point list"
    by (simp add: foldl_map)
  have len: "length (terrainData_points A center ss) = length ss" for ss
    by (simp add: terrainData_points_def)
  have nil: "terrainData_points A center ss = [] \<longleftrightarrow> ss = []" for ss
    by (simp add: terrainData_points_def)
  show ?thesis
    unfolding zGrid_cell_def find_points filter_points fl pz_points len Let_def fmean_def
    by (simp add: convertToRelativeCoords_def projected_def Let_def split: option.splits)
qed



lemma terrainData_empty:
  "terrainData A center r [] = \<lparr>hx = [], hy = [], hz = [Some []]\<rparr>"
  by (simp add: terrainData_def)


lemma terrainData_cell:
  assumes i: "i < length (hy (terrainData A center r samples))"
    and j: "j < length (hx (terrainData A center r samples))"
  shows "\<exists>row. hz (terrainData A center r samples) ! i = Some row
           \<and> length row = length (hx (terrainData A center r samples))
           \<and> row ! j = Some (zGrid_cell A r (terrainData_points A center samples)
                               (hx (terrainData A center r samples) ! j)
                               (hy (terrainData A center r samples) ! i))"
proof -
  have ne: "samples \<noteq> []"
    using j by (auto simp: terrainData_empty)
  show ?thesis
    using i j by (simp add: terrainData_nonempty(3) [OF ne])
qed

lemma sorted_Set_values:
  "sorted (sort (Set_values [] vs)) \<and> distinct (sort (Set_values [] vs))
   \<and> set (sort (Set_values [] vs)) = set vs"
  by (simp add: set_Set_values distinct_Set_values)

lemma terrainData_single:
  "terrainData A center r [s]
     = \<lparr>hx = [px (projected A center s)], hy = [py (projected A center s)],
        hz = [Some [Some (elevation s)]]\<rparr>"
proof -
  have ne: "[s] \<noteq> []" by simp
  have x: "hx (terrainData A center r [s]) = [px (projected A center s)]"
    by (simp add: terrainData_nonempty(1) [OF ne])
  have y: "hy (terrainData A center r [s]) = [py (projected A center s)]"
    by (simp add: terrainData_nonempty(2) [OF ne])
  have z: "hz (terrainData A center r [s]) = [Some [Some (elevation s)]]"
    by (subst terrainData_nonempty(3) [OF ne])
       (simp add: x y zGrid_cell_samples exactly_at_def)
  show ?thesis
    using x y z by (cases "terrainData A center r [s]") simp
qed

lemma two_samples_axes:
  "hx (terrainData exact origin r two_samples) = [0, 111320]"
  "hy (terrainData exact origin r two_samples) = [0, 111320]"
proof -
  have ne: "two_samples \<noteq> []" by (simp add: two_samples_def)
  show "hx (terrainData exact origin r two_samples) = [0, 111320]"
    unfolding terrainData_nonempty(1) [OF ne]
    by (simp add: two_samples_def projected_def
          convertToRelativeCoords_def fmul_def fsub_def exact_def origin_def)
  show "hy (terrainData exact origin r two_samples) = [0, 111320]"
    unfolding terrainData_nonempty(2) [OF ne]
    by (simp add: two_samples_def projected_def
          convertToRelativeCoords_def fmul_def fsub_def exact_def origin_def)
qed


text \<open>
  Three samples of elevation 0.1 in binary64 arithmetic: the numbers that occur are
  numbers of binary64, and the fourth corner gets the rounded mean.
\<close>

lemma round_double_q: "round_double (1 / 16384) = 1 / 16384"
  by (subst round_double_scaled [of 66]) (simp_all add: round_even_def)

lemma round_double_a: "round_double (13915 / 2048) = 13915 / 2048"
  by (subst round_double_scaled [of 50]) (simp_all add: round_even_def)

lemma round_double_minus_a: "round_double (- (13915 / 2048)) = - (13915 / 2048)"
  by (subst round_double_scaled [of 50]) (simp_all add: round_even_def)

lemma round_double_20: "round_double 20 = 20"
  by (subst round_double_scaled [of 48]) (simp_all add: round_even_def)

lemma rnd_binary64: "rnd binary64 = round_double"
  by (simp add: binary64_def)

lemmas corner_rounding =
  round_double_zero round_double_q round_double_a round_double_minus_a round_double_20

lemma corner_projected:
  "projected binary64 origin \<lparr>latitude = 0, longitude = 0, elevation = double_0_1\<rparr>
     = \<lparr>px = 0, py = 0, pz = double_0_1\<rparr>"
  "projected binary64 origin \<lparr>latitude = 0, longitude = 1 / 16384, elevation = double_0_1\<rparr>
     = \<lparr>px = 13915 / 2048, py = 0, pz = double_0_1\<rparr>"
  "projected binary64 origin \<lparr>latitude = 1 / 16384, longitude = 0, elevation = double_0_1\<rparr>
     = \<lparr>px = 0, py = 13915 / 2048, pz = double_0_1\<rparr>"
  by (simp_all add: projected_def convertToRelativeCoords_def fmul_def fsub_def binary64_def
        origin_def corner_rounding)

lemma corner_axes:
  "hx (terrainData binary64 origin 10 corner_samples) = [0, 13915 / 2048]"
  "hy (terrainData binary64 origin 10 corner_samples) = [0, 13915 / 2048]"
proof -
  have ne: "corner_samples \<noteq> []" by (simp add: corner_samples_def)
  show "hx (terrainData binary64 origin 10 corner_samples) = [0, 13915 / 2048]"
    unfolding terrainData_nonempty(1) [OF ne]
    by (simp add: corner_samples_def corner_projected)
  show "hy (terrainData binary64 origin 10 corner_samples) = [0, 13915 / 2048]"
    unfolding terrainData_nonempty(2) [OF ne]
    by (simp add: corner_samples_def corner_projected)
qed

lemma corner_cells:
  "zGrid_cell binary64 10 (terrainData_points binary64 origin corner_samples) 0 0 = double_0_1"
  "zGrid_cell binary64 10 (terrainData_points binary64 origin corner_samples) (13915 / 2048) 0
     = double_0_1"
  "zGrid_cell binary64 10 (terrainData_points binary64 origin corner_samples) 0 (13915 / 2048)
     = double_0_1"
  by (simp_all add: zGrid_cell_samples corner_samples_def exactly_at_def corner_projected)

lemma corner_window:
  "filter (within_window binary64 origin 10 (13915 / 2048) (13915 / 2048)) corner_samples
     = corner_samples"
  by (simp add: corner_samples_def within_window_def corner_projected fsub_def fmul_def
        rnd_binary64 corner_rounding)

lemma corner_cell_mean:
  "zGrid_cell binary64 10 (terrainData_points binary64 origin corner_samples)
     (13915 / 2048) (13915 / 2048) = 7205759403792795 / 2 ^ 56"
proof -
  have no: "find (exactly_at binary64 origin (13915 / 2048) (13915 / 2048)) corner_samples = None"
    by (simp add: corner_samples_def exactly_at_def corner_projected)
  have ne: "corner_samples \<noteq> []" by (simp add: corner_samples_def)
  have el: "map elevation corner_samples = [double_0_1, double_0_1, double_0_1]"
    by (simp add: corner_samples_def)
  show ?thesis
    unfolding zGrid_cell_samples no corner_window el
    using ne fmean_binary64_three by simp
qed





text \<open>
  C3, as stated, for the empty sequence of samples: \<open>z\<close> has one row and \<open>ys\<close> has no
  entry.
\<close>

theorem heightfield_rows_counterexample:
  "length (hz (terrainData exact origin 10 [])) \<noteq> length (hy (terrainData exact origin 10 []))"
  by (simp add: terrainData_empty)

text \<open>
  C3, amended. For a non-empty sequence of samples, \<open>xs\<close> and \<open>ys\<close> are sorted
  ascending without repetition and hold the x and y values of the projected samples,
  \<open>z\<close> has as many rows as \<open>ys\<close> has entries, every row is as long as \<open>xs\<close>, and every
  entry of every row is assigned a number.
\<close>

theorem heightfield_invariants:
  fixes A center r samples
  defines "hf \<equiv> terrainData A center r samples"
  assumes ne: "samples \<noteq> []"
  shows "sorted (hx hf) \<and> distinct (hx hf)
         \<and> set (hx hf) = (\<lambda>s. px (projected A center s)) ` set samples
         \<and> sorted (hy hf) \<and> distinct (hy hf)
         \<and> set (hy hf) = (\<lambda>s. py (projected A center s)) ` set samples
         \<and> length (hz hf) = length (hy hf)
         \<and> (\<forall>i < length (hz hf). \<exists>row. hz hf ! i = Some row \<and> length row = length (hx hf)
               \<and> (\<forall>j < length row. \<exists>v. row ! j = Some v))"
proof -
  have x: "sorted (hx hf) \<and> distinct (hx hf)
         \<and> set (hx hf) = (\<lambda>s. px (projected A center s)) ` set samples"
    unfolding hf_def terrainData_nonempty(1) [OF ne]
    using sorted_Set_values [of "map (\<lambda>s. px (projected A center s)) samples"] by simp
  have y: "sorted (hy hf) \<and> distinct (hy hf)
         \<and> set (hy hf) = (\<lambda>s. py (projected A center s)) ` set samples"
    unfolding hf_def terrainData_nonempty(2) [OF ne]
    using sorted_Set_values [of "map (\<lambda>s. py (projected A center s)) samples"] by simp
  have len: "length (hz hf) = length (hy hf)"
    unfolding hf_def by (subst terrainData_nonempty(3) [OF ne]) simp
  have rows: "\<exists>row. hz hf ! i = Some row \<and> length row = length (hx hf)
               \<and> (\<forall>j < length row. \<exists>v. row ! j = Some v)" if "i < length (hz hf)" for i
  proof -
    have i: "i < length (hy hf)" using that len by simp
    have "hz hf ! i = Some (map (\<lambda>xj. Some (zGrid_cell A r (terrainData_points A center samples) xj (hy hf ! i))) (hx hf))"
      unfolding hf_def using i [unfolded hf_def]
      by (subst terrainData_nonempty(3) [OF ne]) simp
    then show ?thesis by simp
  qed
  show ?thesis using x y len rows by blast
qed

text \<open>An instance of the amended C3, for the same two samples.\<close>

theorem heightfield_invariants_witness:
  "two_samples \<noteq> []
   \<and> hx (terrainData exact origin 100000 two_samples) = [0, 111320]
   \<and> sorted (hx (terrainData exact origin 100000 two_samples))
   \<and> length (hz (terrainData exact origin 100000 two_samples))
       = length (hy (terrainData exact origin 100000 two_samples))"
proof -
  have ne: "two_samples \<noteq> []" by (simp add: two_samples_def)
  show ?thesis
    using ne heightfield_invariants [OF ne, of exact origin 100000] two_samples_axes(1)
    by simp
qed

text \<open>
  C7. For the empty sequence of samples the height field has empty \<open>xs\<close> and \<open>ys\<close> and
  a \<open>z\<close> of one empty row. For a single sample it is the 1 by 1 field of that sample's
  elevation.
\<close>

theorem regrid_empty_single:
  "terrainData A center r [] = \<lparr>hx = [], hy = [], hz = [Some []]\<rparr>
   \<and> terrainData A center r [s]
       = \<lparr>hx = [px (projected A center s)], hy = [py (projected A center s)],
          hz = [Some [Some (elevation s)]]\<rparr>"
  using terrainData_empty terrainData_single by simp

text \<open>
  C10, as stated, fails in binary64 arithmetic: the three samples have elevation 0.1,
  and the entry at the corner without a sample is the next number above 0.1.
\<close>

theorem regrid_entries_counterexample:
  "hz (terrainData binary64 origin 10 corner_samples)
     = [Some [Some double_0_1, Some double_0_1],
        Some [Some double_0_1, Some (7205759403792795 / 2 ^ 56)]]
   \<and> \<not> (7205759403792795 / 2 ^ 56 \<le> max 0 (Max (elevation ` set corner_samples)))"
proof -
  have ne: "corner_samples \<noteq> []" by (simp add: corner_samples_def)
  have z: "hz (terrainData binary64 origin 10 corner_samples)
     = [Some [Some double_0_1, Some double_0_1],
        Some [Some double_0_1, Some (7205759403792795 / 2 ^ 56)]]"
    by (subst terrainData_nonempty(3) [OF ne])
       (simp add: corner_axes corner_cells corner_cell_mean)
  have m: "max 0 (Max (elevation ` set corner_samples)) = double_0_1"
    by (simp add: corner_samples_def double_0_1_def)
  show ?thesis
    unfolding m using z by (simp add: double_0_1_def)
qed

text \<open>
  C10, amended. Every entry of the height field is the elevation of a sample, or the
  mean, as the arithmetic in use computes it, of the elevations of a non-empty
  subsequence of the samples, or 0. In exact arithmetic every entry lies between
  \<open>min(0, least elevation)\<close> and \<open>max(0, greatest elevation)\<close>.
\<close>

theorem regrid_entries_bounded:
  fixes A center r samples i j
  defines "hf \<equiv> terrainData A center r samples"
  assumes i: "i < length (hy hf)" and j: "j < length (hx hf)"
  shows "\<exists>row v. hz hf ! i = Some row \<and> row ! j = Some v
           \<and> ((\<exists>s\<in>set samples. v = elevation s)
               \<or> (\<exists>N. N \<noteq> [] \<and> subseq N samples \<and> v = fmean A (map elevation N))
               \<or> v = 0)
           \<and> (A = exact \<longrightarrow>
                 min 0 (Min (elevation ` set samples)) \<le> v
                 \<and> v \<le> max 0 (Max (elevation ` set samples)))"
proof -
  let ?xj = "hx hf ! j" and ?yi = "hy hf ! i"
  let ?v = "zGrid_cell A r (terrainData_points A center samples) ?xj ?yi"
  let ?N = "filter (within_window A center r ?xj ?yi) samples"
  let ?lo = "Min (elevation ` set samples)" and ?hi = "Max (elevation ` set samples)"
  obtain row where row: "hz hf ! i = Some row" "row ! j = Some ?v"
    using terrainData_cell [of i A center r samples j] i j
    unfolding hf_def by blast
  have bounds: "?lo \<le> elevation s \<and> elevation s \<le> ?hi" if "s \<in> set samples" for s
    using that by simp
  consider (found) s where "find (exactly_at A center ?xj ?yi) samples = Some s"
    | (mean) "find (exactly_at A center ?xj ?yi) samples = None" "?N \<noteq> []"
    | (zero) "find (exactly_at A center ?xj ?yi) samples = None" "?N = []"
    by (cases "find (exactly_at A center ?xj ?yi) samples") auto
  then have "((\<exists>s\<in>set samples. ?v = elevation s)
               \<or> (\<exists>N. N \<noteq> [] \<and> subseq N samples \<and> ?v = fmean A (map elevation N))
               \<or> ?v = 0)
           \<and> (A = exact \<longrightarrow> min 0 ?lo \<le> ?v \<and> ?v \<le> max 0 ?hi)"
  proof cases
    case found
    then have s: "s \<in> set samples"
      by (auto simp: find_Some_iff)
    have v: "?v = elevation s" using found by (simp add: zGrid_cell_samples)
    have b: "min 0 ?lo \<le> elevation s \<and> elevation s \<le> max 0 ?hi"
      using bounds [OF s] by linarith
    show ?thesis unfolding v using s b by blast
  next
    case mean
    have v: "?v = fmean A (map elevation ?N)" using mean by (simp add: zGrid_cell_samples)
    have sub: "subseq ?N samples" by simp
    have ex: "min 0 ?lo \<le> ?v \<and> ?v \<le> max 0 ?hi" if "A = exact"
    proof -
      have "?v = sum_list (map elevation ?N) / real (length (map elevation ?N))"
        using v that by (simp add: fmean_exact)
      moreover have "\<forall>e \<in> set (map elevation ?N). ?lo \<le> e" using bounds by auto
      moreover have "\<forall>e \<in> set (map elevation ?N). e \<le> ?hi" using bounds by auto
      moreover have "map elevation ?N \<noteq> []" using mean(2) by simp
      ultimately have "?lo \<le> ?v \<and> ?v \<le> ?hi"
        using mean_between [of "map elevation ?N" ?lo ?hi] by simp
      then show ?thesis by linarith
    qed
    show ?thesis using v sub mean(2) ex by blast
  next
    case zero
    have v: "?v = 0" using zero by (simp add: zGrid_cell_samples)
    show ?thesis unfolding v by simp
  qed
  then show ?thesis using row by blast
qed


text \<open>
  An instance of the amended C10: the cell of the two samples that gets their mean
  lies between 0 and the greater elevation.
\<close>

theorem regrid_entries_bounded_witness:
  "0 < length (hy (terrainData exact origin 100000 two_samples))
   \<and> 1 < length (hx (terrainData exact origin 100000 two_samples))
   \<and> exact = exact
   \<and> (\<exists>row v. hz (terrainData exact origin 100000 two_samples) ! 0 = Some row
          \<and> row ! 1 = Some v \<and> 0 \<le> v \<and> v \<le> 20)"
proof -
  have i: "0 < length (hy (terrainData exact origin 100000 two_samples))"
    by (simp add: two_samples_axes)
  have j: "1 < length (hx (terrainData exact origin 100000 two_samples))"
    by (simp add: two_samples_axes)
  have lo: "min 0 (Min (elevation ` set two_samples)) = 0"
    by (simp add: two_samples_def)
  have hi: "max 0 (Max (elevation ` set two_samples)) = 20"
    by (simp add: two_samples_def)
  from regrid_entries_bounded [OF i j]
  have "\<exists>row v. hz (terrainData exact origin 100000 two_samples) ! 0 = Some row
          \<and> row ! 1 = Some v \<and> 0 \<le> v \<and> v \<le> 20"
    unfolding lo hi by blast
  then show ?thesis using i j by blast
qed

subsection \<open>Elevation provider\<close>

lemma ceil_div_index:
  assumes "0 < (b::nat)"
  shows "k * b < n \<longleftrightarrow> k < (n + b - 1) div b"
proof -
  have "k < (n + b - 1) div b \<longleftrightarrow> Suc k \<le> (n + b - 1) div b" by auto
  also have "\<dots> \<longleftrightarrow> Suc k * b \<le> n + b - 1"
    using assms by (simp only: less_eq_div_iff_mult_less_eq)
  also have "\<dots> \<longleftrightarrow> k * b < n"
    using assms by (simp only: mult_Suc) linarith
  finally show ?thesis by simp
qed

lemma batch_index: "k * BATCH_SIZE < length locations \<longleftrightarrow> k < batch_count locations"
  unfolding batch_count_def using ceil_div_index [of BATCH_SIZE k "length locations"]
  by (simp add: BATCH_SIZE_def)

lemma fetch_batches_step:
  assumes "k < batch_count locations"
  shows "fetch_batches net locations (k * BATCH_SIZE) acc eff
           = (case net k (batch locations k) of
                NetworkFailure \<Rightarrow> (Inl TransportError, eff @ [Request (batch locations k)])
              | Http status body \<Rightarrow>
                  if \<not> response_ok status
                  then (Inl (FetchFailed status), eff @ [Request (batch locations k)])
                  else (case body of
                          Unparsable \<Rightarrow> (Inl JsonError, eff @ [Request (batch locations k)])
                        | NoResults \<Rightarrow> (Inl NotIterable, eff @ [Request (batch locations k)])
                        | Results results \<Rightarrow>
                            fetch_batches net locations ((k + 1) * BATCH_SIZE)
                              (acc @ results)
                              ((eff @ [Request (batch locations k)]) @ [Delay 100])))"
proof -
  have lt: "k * BATCH_SIZE < length locations" using assms by (simp add: batch_index)
  have dv: "k * BATCH_SIZE div BATCH_SIZE = k" by (simp add: BATCH_SIZE_def)
  have nx: "k * BATCH_SIZE + BATCH_SIZE = (k + 1) * BATCH_SIZE" by simp
  show ?thesis
    by (subst fetch_batches.simps) (simp only: lt if_True Let_def dv nx batch_def)
qed

lemma step_good:
  assumes "k < batch_count locations" and "good_response (net k (batch locations k))"
  shows "fetch_batches net locations (k * BATCH_SIZE) acc eff
           = fetch_batches net locations ((k + 1) * BATCH_SIZE)
               (acc @ results_of (net k (batch locations k)))
               (eff @ [Request (batch locations k), Delay 100])"
  using assms(2) unfolding fetch_batches_step [OF assms(1)]
  by (auto simp: good_response_def results_of_def split: response.splits payload.splits)

lemma step_bad:
  assumes "k < batch_count locations" and "\<not> good_response (net k (batch locations k))"
  shows "fetch_batches net locations (k * BATCH_SIZE) acc eff
           = (Inl (error_of (net k (batch locations k))), eff @ [Request (batch locations k)])"
  using assms(2) unfolding fetch_batches_step [OF assms(1)]
  by (auto simp: good_response_def error_of_def split: response.splits payload.splits)

lemma step_done:
  assumes "\<not> k < batch_count locations"
  shows "fetch_batches net locations (k * BATCH_SIZE) acc eff = (Inr acc, eff)"
  using assms by (subst fetch_batches.simps) (simp add: batch_index)

lemma run_good:
  assumes "k0 \<le> k" and "\<forall>j. k0 \<le> j \<and> j < k \<longrightarrow> j < batch_count locations \<and> good_response (net j (batch locations j))"
  shows "fetch_batches net locations (k0 * BATCH_SIZE) acc eff
           = fetch_batches net locations (k * BATCH_SIZE)
               (acc @ concat (map (\<lambda>j. results_of (net j (batch locations j))) [k0..<k]))
               (eff @ batch_effects locations k0 k)"
  using assms
proof (induction "k - k0" arbitrary: k0 acc eff)
  case 0
  then show ?case by (simp add: batch_effects_def)
next
  case (Suc d)
  have lt: "k0 < k" using Suc.hyps(2) by simp
  have g: "k0 < batch_count locations" "good_response (net k0 (batch locations k0))"
    using Suc.prems(2) lt by auto
  have up: "[k0..<k] = k0 # [k0 + 1..<k]" using lt by (simp add: upt_conv_Cons)
  have "fetch_batches net locations (k0 * BATCH_SIZE) acc eff
           = fetch_batches net locations ((k0 + 1) * BATCH_SIZE)
               (acc @ results_of (net k0 (batch locations k0)))
               (eff @ [Request (batch locations k0), Delay 100])"
    using g by (rule step_good [of k0 locations net acc eff])
  also have "\<dots> = fetch_batches net locations (k * BATCH_SIZE)
               ((acc @ results_of (net k0 (batch locations k0)))
                  @ concat (map (\<lambda>j. results_of (net j (batch locations j))) [k0 + 1..<k]))
               ((eff @ [Request (batch locations k0), Delay 100])
                  @ batch_effects locations (k0 + 1) k)"
    using Suc.hyps(2) Suc.prems lt by (intro Suc.hyps(1)) auto
  finally show ?case by (simp add: up batch_effects_def)
qed

lemma fetch_all_good:
  assumes "\<forall>k < batch_count locations. good_response (net k (batch locations k))"
  shows "fetch_batches net locations 0 [] []
           = (Inr (concat (map (\<lambda>k. results_of (net k (batch locations k)))
                             [0..<batch_count locations])),
              batch_effects locations 0 (batch_count locations))"
  using run_good [of 0 "batch_count locations" locations net "[]" "[]"] assms
    step_done [of "batch_count locations" locations net]
  by simp

lemma fetch_first_bad:
  assumes "k < batch_count locations"
    and "\<forall>j < k. good_response (net j (batch locations j))"
    and "\<not> good_response (net k (batch locations k))"
  shows "fetch_batches net locations 0 [] []
           = (Inl (error_of (net k (batch locations k))),
              batch_effects locations 0 k @ [Request (batch locations k)])"
  using run_good [of 0 k locations net "[]" "[]"] assms
    step_bad [of k locations net "concat (map (\<lambda>j. results_of (net j (batch locations j))) [0..<k])"
      "batch_effects locations 0 k"]
  by simp

lemma concat_batches:
  "concat (map (\<lambda>j. take n (drop (j * n) xs)) [0..<m]) = take (m * n) xs"
proof (induction m)
  case 0
  then show ?case by simp
next
  case (Suc m)
  have "take (n + m * n) xs = take (m * n + n) xs"
    by (simp add: add.commute)
  also have "\<dots> = take (m * n) xs @ take n (drop (m * n) xs)"
    by (rule take_add)
  finally show ?case using Suc by simp
qed

lemma batch_take_drop: "batch locations = (\<lambda>k. take BATCH_SIZE (drop (k * BATCH_SIZE) locations))"
  by (rule ext) (simp add: batch_def slice_def)

lemma batches_partition:
  "concat (map (batch locations) [0..<batch_count locations]) = locations"
proof -
  have "\<not> batch_count locations * BATCH_SIZE < length locations"
    by (simp add: batch_index)
  then have "length locations \<le> batch_count locations * BATCH_SIZE"
    by simp
  then show ?thesis
    using concat_batches [of BATCH_SIZE locations "batch_count locations"]
    by (simp add: batch_take_drop)
qed

lemma batch_length:
  assumes "k < batch_count locations"
  shows "0 < length (batch locations k) \<and> length (batch locations k) \<le> 100"
proof -
  have "k * BATCH_SIZE < length locations" using assms by (simp add: batch_index)
  then show ?thesis by (simp add: batch_take_drop BATCH_SIZE_def)
qed


lemma batch_single: "batch_count [l] = 1" "batch [l] 0 = [l]"
  by (simp_all add: batch_count_def batch_def slice_def BATCH_SIZE_def)

text \<open>
  C4, as stated, says that the delay is inserted between batches and only between
  them. For one location there is one batch, and a delay follows its request.
\<close>

theorem delay_after_last_batch_counterexample:
  "batch_count [origin] = 1
   \<and> snd (fetch_batches (flat_service 7) [origin] 0 [] []) = [Request [origin], Delay 100]"
proof -
  have g: "\<forall>k<batch_count [origin]. good_response (flat_service 7 k (batch [origin] k))"
    by (simp add: good_response_def flat_service_def response_ok_def)
  show ?thesis
    using fetch_all_good [of "[origin]" "flat_service 7"] g
    by (simp add: batch_single batch_effects_def)
qed


text \<open>
  C4, amended. The batches are consecutive stretches of the locations, each of at least
  one and at most 100 locations, and together they are the locations. The loop issues
  the requests in order, one per batch, each after the response to the one before. If
  every batch gets a good response, the results are accumulated in the order of the
  requests, and a delay of 100 ms follows every batch, the last one included. At the
  first batch whose response is not good, the loop stops with the failure of that
  response, after the request of that batch and with no delay and no request after it;
  for a status that is not a success the failure is \<open>FetchFailed\<close> with that status.
\<close>

theorem batches_sequential:
  fixes net :: network and locations :: "LatLng list"
  defines "n \<equiv> batch_count locations"
  shows "concat (map (batch locations) [0..<n]) = locations
       \<and> (\<forall>k<n. 0 < length (batch locations k) \<and> length (batch locations k) \<le> 100)
       \<and> ((\<forall>k<n. good_response (net k (batch locations k))) \<longrightarrow>
            fetch_batches net locations 0 [] []
              = (Inr (concat (map (\<lambda>k. results_of (net k (batch locations k))) [0..<n])),
                 batch_effects locations 0 n))
       \<and> (\<forall>k<n. (\<forall>j<k. good_response (net j (batch locations j)))
                   \<and> \<not> good_response (net k (batch locations k)) \<longrightarrow>
            fetch_batches net locations 0 [] []
              = (Inl (error_of (net k (batch locations k))),
                 batch_effects locations 0 k @ [Request (batch locations k)]))
       \<and> (\<forall>status body. \<not> response_ok status \<longrightarrow>
            \<not> good_response (Http status body)
            \<and> error_of (Http status body) = FetchFailed status)"
proof -
  have a: "concat (map (batch locations) [0..<n]) = locations"
    unfolding n_def by (rule batches_partition)
  have b: "\<forall>k<n. 0 < length (batch locations k) \<and> length (batch locations k) \<le> 100"
    unfolding n_def using batch_length by blast
  have c: "(\<forall>k<n. good_response (net k (batch locations k))) \<longrightarrow>
            fetch_batches net locations 0 [] []
              = (Inr (concat (map (\<lambda>k. results_of (net k (batch locations k))) [0..<n])),
                 batch_effects locations 0 n)"
    unfolding n_def using fetch_all_good [of locations net] by blast
  have d: "\<forall>k<n. (\<forall>j<k. good_response (net j (batch locations j)))
                   \<and> \<not> good_response (net k (batch locations k)) \<longrightarrow>
            fetch_batches net locations 0 [] []
              = (Inl (error_of (net k (batch locations k))),
                 batch_effects locations 0 k @ [Request (batch locations k)])"
    unfolding n_def using fetch_first_bad [of _ locations net] by blast
  have e: "\<forall>status body. \<not> response_ok status \<longrightarrow>
            \<not> good_response (Http status body)
            \<and> error_of (Http status body) = FetchFailed status"
    by (auto simp: good_response_def error_of_def split: payload.splits)
  show ?thesis using a b c d e by blast
qed

text \<open>
  Instances of the amended C4, for one location: a service that answers every
  location with the elevation 7, and a service that answers with status 500.
\<close>

theorem batches_sequential_witness:
  "fetch_batches (flat_service 7) [origin] 0 [] []
     = (Inr [\<lparr>latitude = 0, longitude = 0, elevation = 7\<rparr>], [Request [origin], Delay 100])
   \<and> fetch_batches failing_service [origin] 0 [] []
     = (Inl (FetchFailed 500), [Request [origin]])"
proof -
  have g: "\<forall>k<batch_count [origin]. good_response (flat_service 7 k (batch [origin] k))"
    by (simp add: good_response_def flat_service_def response_ok_def)
  have a: "fetch_batches (flat_service 7) [origin] 0 [] []
     = (Inr [\<lparr>latitude = 0, longitude = 0, elevation = 7\<rparr>], [Request [origin], Delay 100])"
    using batches_sequential [of "[origin]" "flat_service 7"] g
    by (simp add: batch_single batch_effects_def results_of_def flat_service_def origin_def)
  have bad: "\<not> good_response (failing_service 0 (batch [origin] 0))"
    by (simp add: good_response_def failing_service_def response_ok_def)
  have b: "fetch_batches failing_service [origin] 0 [] []
     = (Inl (FetchFailed 500), [Request [origin]])"
    using batches_sequential [of "[origin]" failing_service] bad
    by (simp add: batch_single batch_effects_def error_of_def failing_service_def
          response_ok_def)
  show ?thesis using a b by simp
qed

text \<open>For an empty grid the effect returns at once: no request, no state change.\<close>

lemma elevationEffect_empty: "elevationEffect A net [] center s = (s, [])"
  by (simp add: elevationEffect_def)

lemma first_bad:
  assumes "\<exists>k<n. \<not> P k"
  obtains k :: nat where "k < n" "\<not> P k" "\<forall>j<k. P j"
proof -
  have "\<exists>k. (k < n \<and> \<not> P k) \<and> (\<forall>j<k. \<not> (j < n \<and> \<not> P j))"
    using assms exists_least_iff [of "\<lambda>k. k < n \<and> \<not> P k"] by simp
  then obtain k where k: "k < n" "\<not> P k" "\<forall>j<k. \<not> (j < n \<and> \<not> P j)"
    by blast
  have "\<forall>j<k. P j"
  proof (intro allI impI)
    fix j assume "j < k"
    then have "j < n" "\<not> (j < n \<and> \<not> P j)" using k by simp_all
    then show "P j" by simp
  qed
  then show ?thesis using that k by blast
qed

lemma requests_all_good:
  assumes "\<forall>k < batch_count (map (\<lambda>feature. \<lparr>latitude = snd feature, longitude = fst feature\<rparr>) features).
             good_response (net k (batch (map (\<lambda>feature. \<lparr>latitude = snd feature, longitude = fst feature\<rparr>) features) k))"
  shows "fst (fetchElevationData_requests net features)
           = Inr (concat (map (\<lambda>k. results_of (net k (batch (map (\<lambda>feature. \<lparr>latitude = snd feature, longitude = fst feature\<rparr>) features) k)))
                  [0..<batch_count (map (\<lambda>feature. \<lparr>latitude = snd feature, longitude = fst feature\<rparr>) features)]))"
  using fetch_all_good [of "map (\<lambda>feature. \<lparr>latitude = snd feature, longitude = fst feature\<rparr>) features" net] assms
  by (simp add: fetchElevationData_requests_def)

lemma requests_some_bad:
  assumes "\<exists>k < batch_count (map (\<lambda>feature. \<lparr>latitude = snd feature, longitude = fst feature\<rparr>) features).
             \<not> good_response (net k (batch (map (\<lambda>feature. \<lparr>latitude = snd feature, longitude = fst feature\<rparr>) features) k))"
  shows "\<exists>err. fst (fetchElevationData_requests net features) = Inl err"
proof -
  let ?locs = "map (\<lambda>feature. \<lparr>latitude = snd feature, longitude = fst feature\<rparr>) features"
  obtain k where k: "k < batch_count ?locs" "\<not> good_response (net k (batch ?locs k))"
      "\<forall>j<k. good_response (net j (batch ?locs j))"
    using first_bad [of "batch_count ?locs" "\<lambda>k. good_response (net k (batch ?locs k))"] assms
    by blast
  show ?thesis
    using fetch_first_bad [of k ?locs net] k
    by (simp add: fetchElevationData_requests_def)
qed

lemma settle_failure:
  assumes "fst (fetchElevationData_requests net features) = Inl err"
  shows "fst (fetchElevationData A net features center s)
           = \<lparr>isLoading = False,
              errorMessage = Some ''Failed to fetch elevation data. Using simulated terrain instead.'',
              elevationData = map (simulatedSample A center) features\<rparr>"
  using assms
  by (cases "fetchElevationData_requests net features")
     (simp add: fetchElevationData_def fetchElevationData_settle_def fetchElevationData_begin_def)

lemma settle_success:
  assumes "fst (fetchElevationData_requests net features) = Inr results"
  shows "fst (fetchElevationData A net features center s)
           = \<lparr>isLoading = False, errorMessage = None, elevationData = results\<rparr>"
  using assms
  by (cases "fetchElevationData_requests net features")
     (simp add: fetchElevationData_def fetchElevationData_settle_def fetchElevationData_begin_def)

lemma length_concat_same:
  assumes "\<forall>k<n. length (f k) = length (g k)"
  shows "length (concat (map f [0..<n])) = length (concat (map g [0..<n]))"
  using assms by (induction n) simp_all

text \<open>
  C2, as stated, fails for a service that answers with status 200 and an empty array of
  results: nothing is thrown, no sample is stored for the one feature, and no error
  message is set.
\<close>

theorem resolve_total_counterexample:
  "elevationData (fst (fetchElevationData exact silent_service [(0, 0)] origin initial_state)) = []
   \<and> errorMessage (fst (fetchElevationData exact silent_service [(0, 0)] origin initial_state)) = None
   \<and> length (elevationData (fst (fetchElevationData exact silent_service [(0, 0)] origin initial_state)))
       \<noteq> length [(0, 0) :: Feature]"
proof -
  let ?locs = "map (\<lambda>feature. \<lparr>latitude = snd feature, longitude = fst feature\<rparr>) [(0, 0) :: Feature]"
  have g: "\<forall>k<batch_count ?locs. good_response (silent_service k (batch ?locs k))"
    by (simp add: good_response_def silent_service_def response_ok_def)
  have r: "fst (fetchElevationData_requests silent_service [(0, 0)]) = Inr []"
    using requests_all_good [of "[(0, 0)]" silent_service] g
    by (simp add: batch_single results_of_def silent_service_def)
  show ?thesis
    by (simp add: settle_success [OF r])
qed

text \<open>
  C2, amended. \<open>fetchElevationData\<close> always ends loading. If some batch gets a response
  that is not good (the request fails, the status is not a success, the body does not
  parse, or the parsed body has no \<open>results\<close> to spread), whatever the other responses
  are, the results accumulated so far are dropped, the stored data are the simulated
  samples of all features, exactly one per feature, in order and at the coordinates of
  the features, and the error message is set. If every response is good, the stored
  data are the results in the order of the requests, whatever their number, and no
  error message is set. Exactly one sample per feature is stored in every case
  provided that every good response carries as many results as its batch has
  locations.
\<close>

theorem resolve_total:
  fixes A net features center s
  defines "locations \<equiv> map (\<lambda>feature. \<lparr>latitude = snd feature, longitude = fst feature\<rparr>) features"
  defines "n \<equiv> batch_count locations"
  defines "s' \<equiv> fst (fetchElevationData A net features center s)"
  shows "\<not> isLoading s'
       \<and> ((\<exists>k<n. \<not> good_response (net k (batch locations k))) \<longrightarrow>
             elevationData s' = map (simulatedSample A center) features
             \<and> length (elevationData s') = length features
             \<and> (\<forall>i<length features.
                    longitude (elevationData s' ! i) = fst (features ! i)
                    \<and> latitude (elevationData s' ! i) = snd (features ! i))
             \<and> errorMessage s'
                 = Some ''Failed to fetch elevation data. Using simulated terrain instead.'')
       \<and> ((\<forall>k<n. good_response (net k (batch locations k))) \<longrightarrow>
             elevationData s'
               = concat (map (\<lambda>k. results_of (net k (batch locations k))) [0..<n])
             \<and> errorMessage s' = None)
       \<and> ((\<forall>k<n. good_response (net k (batch locations k))
               \<longrightarrow> length (results_of (net k (batch locations k))) = length (batch locations k))
            \<longrightarrow> length (elevationData s') = length features)"
proof (cases "\<forall>k<n. good_response (net k (batch locations k))")
  case True
  have r: "fst (fetchElevationData_requests net features)
             = Inr (concat (map (\<lambda>k. results_of (net k (batch locations k))) [0..<n]))"
    using True requests_all_good [of features net] unfolding n_def locations_def by blast
  have st: "s' = \<lparr>isLoading = False, errorMessage = None,
                  elevationData = concat (map (\<lambda>k. results_of (net k (batch locations k))) [0..<n])\<rparr>"
    unfolding s'_def by (rule settle_success [OF r])
  have len: "length (concat (map (\<lambda>k. results_of (net k (batch locations k))) [0..<n]))
          = length features"
    if contract: "\<forall>k<n. good_response (net k (batch locations k))
               \<longrightarrow> length (results_of (net k (batch locations k))) = length (batch locations k)"
  proof -
    have "length (concat (map (\<lambda>k. results_of (net k (batch locations k))) [0..<n]))
          = length (concat (map (batch locations) [0..<n]))"
      using True contract by (intro length_concat_same) simp
    also have "\<dots> = length locations"
      unfolding n_def by (simp add: batches_partition)
    also have "\<dots> = length features" by (simp add: locations_def)
    finally show ?thesis .
  qed
  show ?thesis using True st len by simp
next
  case False
  then have bad: "\<exists>k<n. \<not> good_response (net k (batch locations k))" by blast
  obtain err where r: "fst (fetchElevationData_requests net features) = Inl err"
    using bad requests_some_bad [of features net] unfolding n_def locations_def by blast
  have st: "s' = \<lparr>isLoading = False,
              errorMessage = Some ''Failed to fetch elevation data. Using simulated terrain instead.'',
              elevationData = map (simulatedSample A center) features\<rparr>"
    unfolding s'_def by (rule settle_failure [OF r])
  have coords: "longitude (simulatedSample A center f) = fst f
      \<and> latitude (simulatedSample A center f) = snd f" for f
    by (simp add: simulatedSample_def Let_def)
  show ?thesis using False st coords by simp
qed

lemma failing_service_requests:
  "fst (fetchElevationData_requests failing_service [f]) = Inl (FetchFailed 500)"
proof -
  let ?locs = "map (\<lambda>feature. \<lparr>latitude = snd feature, longitude = fst feature\<rparr>) [f]"
  have "\<not> good_response (failing_service 0 (batch ?locs 0))"
    by (simp add: good_response_def failing_service_def response_ok_def)
  then show ?thesis
    using fetch_first_bad [of 0 ?locs failing_service]
    by (simp add: fetchElevationData_requests_def batch_single error_of_def
          failing_service_def response_ok_def)
qed

lemma simulatedSample_origin:
  "simulatedSample exact origin (0, 0) = \<lparr>latitude = 0, longitude = 0, elevation = 0\<rparr>"
  by (simp add: simulatedSample_def Let_def fadd_def fmul_def fsub_def flit_def exact_def origin_def)

text \<open>
  Instances of the amended C2, for one feature at the centre point: a service that
  answers with status 500, and a service that answers every location with the
  elevation 7.
\<close>

theorem resolve_total_witness:
  "elevationData (fst (fetchElevationData exact failing_service [(0, 0)] origin initial_state))
       = [\<lparr>latitude = 0, longitude = 0, elevation = 0\<rparr>]
   \<and> errorMessage (fst (fetchElevationData exact failing_service [(0, 0)] origin initial_state))
       = Some ''Failed to fetch elevation data. Using simulated terrain instead.''
   \<and> elevationData (fst (fetchElevationData exact (flat_service 7) [(0, 0)] origin initial_state))
       = [\<lparr>latitude = 0, longitude = 0, elevation = 7\<rparr>]
   \<and> errorMessage (fst (fetchElevationData exact (flat_service 7) [(0, 0)] origin initial_state))
       = None
   \<and> length (elevationData
        (fst (fetchElevationData exact (flat_service 7) [(0, 0)] origin initial_state)))
       = length [(0, 0) :: Feature]"
proof -
  let ?locs = "map (\<lambda>feature. \<lparr>latitude = snd feature, longitude = fst feature\<rparr>) [(0, 0) :: Feature]"
  have bad: "\<not> good_response (failing_service k b)" for k b
    by (simp add: good_response_def failing_service_def response_ok_def)
  have e: "\<exists>k<batch_count ?locs. \<not> good_response (failing_service k (batch ?locs k))"
    using bad by (simp add: batch_single)
  from resolve_total [where net = failing_service and features = "[(0, 0)]" and A = exact
      and center = origin and s = initial_state] e
  have a: "elevationData (fst (fetchElevationData exact failing_service [(0, 0)] origin initial_state))
       = map (simulatedSample exact origin) [(0, 0)]
     \<and> errorMessage (fst (fetchElevationData exact failing_service [(0, 0)] origin initial_state))
       = Some ''Failed to fetch elevation data. Using simulated terrain instead.''"
    by blast
  have good: "good_response (flat_service 7 k b)" for k b
    by (simp add: good_response_def flat_service_def response_ok_def)
  have h2: "\<forall>k<batch_count ?locs. good_response (flat_service 7 k (batch ?locs k))
      \<longrightarrow> length (results_of (flat_service 7 k (batch ?locs k))) = length (batch ?locs k)"
    by (simp add: results_of_def flat_service_def)
  have g2: "\<forall>k<batch_count ?locs. good_response (flat_service 7 k (batch ?locs k))"
    using good by simp
  from resolve_total [where net = "flat_service 7" and features = "[(0, 0)]" and A = exact
      and center = origin and s = initial_state] g2 h2
  have c: "elevationData (fst (fetchElevationData exact (flat_service 7) [(0, 0)] origin initial_state))
       = concat (map (\<lambda>k. results_of (flat_service 7 k (batch ?locs k))) [0..<batch_count ?locs])
     \<and> errorMessage (fst (fetchElevationData exact (flat_service 7) [(0, 0)] origin initial_state))
       = None
     \<and> length (elevationData
          (fst (fetchElevationData exact (flat_service 7) [(0, 0)] origin initial_state)))
       = length [(0, 0) :: Feature]"
    by blast
  then have b: "elevationData (fst (fetchElevationData exact (flat_service 7) [(0, 0)] origin initial_state))
       = [\<lparr>latitude = 0, longitude = 0, elevation = 7\<rparr>]
     \<and> errorMessage (fst (fetchElevationData exact (flat_service 7) [(0, 0)] origin initial_state))
       = None"
    by (simp add: batch_single results_of_def flat_service_def)
  show ?thesis using a b c by (simp add: simulatedSample_origin)
qed

lemma synthetic_elevation_exact:
  "synthetic_elevation exact x y
     = sin (x * 0.005) * cos (y * 0.005) * 30 + sin (x * 0.02) * cos (y * 0.02) * 10
       + sin (x * 0.05) * cos (y * 0.05) * 5"
  by (simp add: synthetic_elevation_def wave_def fadd_def fmul_def flit_def exact_def)

lemma simulatedSample_synthetic:
  "simulatedSample A center f
     = \<lparr>latitude = snd f, longitude = fst f,
        elevation = synthetic_elevation A
                      (px (convertToRelativeCoords A center (fst f) (snd f) None))
                      (py (convertToRelativeCoords A center (fst f) (snd f) None))\<rparr>"
  by (simp add: simulatedSample_def synthetic_elevation_def wave_def
        convertToRelativeCoords_def Let_def)

text \<open>
  C5. When the requests fail, the sample stored for the \<open>i\<close>-th feature has the
  coordinates of the feature and the synthetic elevation at the projection \<open>(x, y)\<close> of
  the feature (its offsets from the centre point times 111320). The elevation is a
  function of the arithmetic and of \<open>(x, y)\<close> alone, so equal positions get equal
  elevations; in exact arithmetic it is
  \<open>sin(x*0.005)*cos(y*0.005)*30 + sin(x*0.02)*cos(y*0.02)*10 + sin(x*0.05)*cos(y*0.05)*5\<close>.
\<close>

theorem fallback_formula:
  fixes A net features center s i
  defines "s' \<equiv> fst (fetchElevationData A net features center s)"
  defines "p \<equiv> convertToRelativeCoords A center (fst (features ! i)) (snd (features ! i)) None"
  assumes failure: "fst (fetchElevationData_requests net features) = Inl err"
    and i: "i < length features"
  shows "elevationData s' ! i
           = \<lparr>latitude = snd (features ! i), longitude = fst (features ! i),
              elevation = synthetic_elevation A (px p) (py p)\<rparr>
         \<and> synthetic_elevation exact x y
           = sin (x * 0.005) * cos (y * 0.005) * 30 + sin (x * 0.02) * cos (y * 0.02) * 10
             + sin (x * 0.05) * cos (y * 0.05) * 5"
  unfolding s'_def p_def settle_failure [OF failure]
  using i by (simp add: simulatedSample_synthetic synthetic_elevation_exact)

text \<open>
  An instance of C5: for a feature at the centre point the projection is (0, 0) and
  the synthetic elevation is 0.
\<close>

theorem fallback_formula_witness:
  "fst (fetchElevationData_requests failing_service [(0, 0)]) = Inl (FetchFailed 500)
   \<and> 0 < length [(0, 0) :: Feature]
   \<and> elevationData (fst (fetchElevationData exact failing_service [(0, 0)] origin initial_state)) ! 0
       = \<lparr>latitude = 0, longitude = 0, elevation = 0\<rparr>"
proof -
  have f: "fst (fetchElevationData_requests failing_service [(0, 0)]) = Inl (FetchFailed 500)"
    by (rule failing_service_requests)
  have i: "0 < length [(0, 0) :: Feature]" by simp
  have z: "synthetic_elevation exact 0 0 = 0"
    by (simp add: synthetic_elevation_exact)
  have p: "convertToRelativeCoords exact origin 0 0 None = \<lparr>px = 0, py = 0, pz = 0\<rparr>"
    by (simp add: convertToRelativeCoords_def fmul_def fsub_def exact_def origin_def)
  show ?thesis
    using fallback_formula [OF f i, where A = exact and center = origin and s = initial_state] f
    by (simp add: p z)
qed


lemma settle_fields:
  "elevationData (fetchElevationData_settle A features center outcome s)
     = (case outcome of Inl err \<Rightarrow> map (simulatedSample A center) features | Inr results \<Rightarrow> results)"
  "isLoading (fetchElevationData_settle A features center outcome s) = False"
  "errorMessage (fetchElevationData_settle A features center outcome s)
     = (case outcome of
          Inl err \<Rightarrow> Some ''Failed to fetch elevation data. Using simulated terrain instead.''
        | Inr results \<Rightarrow> errorMessage s)"
  by (simp_all add: fetchElevationData_settle_def Let_def split: sum.splits)

lemma history_snoc: "history A runs s (events @ [e]) = step A runs (history A runs s events) e"
  by (simp add: history_def)

lemma solo_run_data:
  "elevationData (fst (fetchElevationData A net features center s))
     = (case fst (fetchElevationData_requests net features) of
          Inl err \<Rightarrow> map (simulatedSample A center) features | Inr results \<Rightarrow> results)"
  by (cases "fetchElevationData_requests net features")
     (simp add: fetchElevationData_def settle_fields)

lemma flat_service_requests:
  "fst (fetchElevationData_requests (flat_service h) [f])
     = Inr [\<lparr>latitude = snd f, longitude = fst f, elevation = h\<rparr>]"
proof -
  let ?locs = "map (\<lambda>feature. \<lparr>latitude = snd feature, longitude = fst feature\<rparr>) [f]"
  have g: "\<forall>k<batch_count ?locs. good_response (flat_service h k (batch ?locs k))"
    by (simp add: good_response_def flat_service_def response_ok_def)
  show ?thesis
    using requests_all_good [of "[f]" "flat_service h"] g
    by (simp add: batch_single results_of_def flat_service_def)
qed

text \<open>
  C9, as stated, fails when the older run settles after the newer one: the grid changes
  from the point (0, 0) to the point (1, 1) while run 0 is outstanding, run 1 settles
  first, and when run 0 settles its sample replaces the sample of run 1.
\<close>

theorem stale_overwrites_counterexample:
  "elevationData (history exact two_runs initial_state [Begin 0, Begin 1, Settle 1, Settle 0])
     = [\<lparr>latitude = 0, longitude = 0, elevation = 1\<rparr>]
   \<and> elevationData (fst (fetchElevationData exact (answers (two_runs 1)) (gridPoints (two_runs 1))
                           (center_of (two_runs 1)) initial_state))
     = [\<lparr>latitude = 1, longitude = 1, elevation = 2\<rparr>]"
  by (simp add: history_def settle_fields solo_run_data two_runs_def flat_service_requests)

text \<open>
  C9, amended. After a run settles, whatever happened before and whichever runs
  started in between, the stored elevation data are those of that run alone (its
  results, or its simulated samples when it failed), loading is off, and the error
  message is set if the run failed and left as it was if it succeeded. The results
  observed in the end are those of the run that settles last.
\<close>

theorem last_settle_wins:
  "elevationData (history A runs s (events @ [Settle k]))
     = elevationData (fst (fetchElevationData A (answers (runs k)) (gridPoints (runs k))
                             (center_of (runs k)) s0))
   \<and> \<not> isLoading (history A runs s (events @ [Settle k]))
   \<and> errorMessage (history A runs s (events @ [Settle k]))
       = (case fst (fetchElevationData_requests (answers (runs k)) (gridPoints (runs k))) of
            Inl err \<Rightarrow> Some ''Failed to fetch elevation data. Using simulated terrain instead.''
          | Inr results \<Rightarrow> errorMessage (history A runs s events))"
  by (simp add: history_snoc settle_fields solo_run_data)

end
